theory Spec2Isabelle
  imports Main
begin

section \<open>JSON trees and diff entries\<close>

text \<open>
  A locale file is a JSON document. The values that \<^verbatim>\<open>JSON.parse\<close> returns are modelled by
  the datatype below; an object is an association list in the order of its keys (a parsed
  object never holds a key twice). Numbers are never inspected by the code under study, so
  integers stand for them.
\<close>

datatype json =
    JNull
  | JBool bool
  | JNum int
  | JStr string
  | JArr "json list"
  | JObj "(string \<times> json) list"

text \<open>
  A segment of a diff path is a property name or an array index
  (\<^verbatim>\<open>string | number\<close> in the source).
\<close>

datatype key = Name string | Index nat

text \<open>
  The entries come from the \<^verbatim>\<open>deep-diff\<close> package, whose \<^verbatim>\<open>Diff\<close> type the
  module imports: kind \<^verbatim>\<open>'N'\<close> is a newly added property, \<^verbatim>\<open>'D'\<close> a deleted one,
  \<^verbatim>\<open>'E'\<close> an edited one and \<^verbatim>\<open>'A'\<close> a change inside an array. The fields
  \<^verbatim>\<open>path\<close>, \<^verbatim>\<open>lhs\<close> and \<^verbatim>\<open>rhs\<close> are optional there (\<open>None\<close> is
  \<^verbatim>\<open>undefined\<close>). The \<^verbatim>\<open>index\<close> and \<^verbatim>\<open>item\<close> of an array change are read by
  no function of the translation module and are left out.
\<close>

datatype kind = KindN | KindD | KindE | KindA

record diff =
  kind :: kind
  path :: "key list option"
  lhs :: "json option"
  rhs :: "json option"

section \<open>The relevant-change filter\<close>

text \<open>
  \<^verbatim>\<open>getAllStringValues(obj)\<close> runs \<^verbatim>\<open>for (const key in obj)\<close> and looks at
  \<^verbatim>\<open>obj[key]\<close>: a string is pushed, a non-null object (an array is one) is visited
  recursively, anything else is skipped. The enumerable keys of a string are its
  indices and each \<^verbatim>\<open>obj[key]\<close> is then a one-character string; a number, a
  boolean, \<^verbatim>\<open>null\<close> and \<^verbatim>\<open>undefined\<close> have no enumerable key.
\<close>

fun getAllStringValues :: "json \<Rightarrow> string list" where
  "getAllStringValues (JObj kvs) =
     concat (map (\<lambda>kv. case snd kv of
                          JStr s \<Rightarrow> [s]
                        | JObj ms \<Rightarrow> getAllStringValues (snd kv)
                        | JArr xs \<Rightarrow> getAllStringValues (snd kv)
                        | _ \<Rightarrow> []) kvs)"
| "getAllStringValues (JArr xs) =
     concat (map (\<lambda>v. case v of
                          JStr s \<Rightarrow> [s]
                        | JObj ms \<Rightarrow> getAllStringValues v
                        | JArr ys \<Rightarrow> getAllStringValues v
                        | _ \<Rightarrow> []) xs)"
| "getAllStringValues (JStr s) = map (\<lambda>c. [c]) s"
| "getAllStringValues _ = []"

text \<open>The call site passes \<^verbatim>\<open>rhs\<close>, which may be \<^verbatim>\<open>undefined\<close>.\<close>

definition stringValuesOf :: "json option \<Rightarrow> string list" where
  "stringValuesOf v = (case v of None \<Rightarrow> [] | Some j \<Rightarrow> getAllStringValues j)"

definition extractRelevantChanges :: "diff list \<Rightarrow> diff list" where
  "extractRelevantChanges diffs =
     filter (\<lambda>d. (kind d = KindN \<or> kind d = KindE) \<and>
                 rhs d \<noteq> Some (JStr '''') \<and>
                 length (filter (\<lambda>v. v \<noteq> '''') (stringValuesOf (rhs d))) > 0) diffs"

section \<open>The stores and collaborators of the translation module\<close>

type_synonym uri = string

datatype error =
    SyntaxError
  | TypeError
  | FileNotFound uri
  | ProviderFailure string

datatype StatusBarState = Idle | Running

datatype LogLevel = ERROR | VERBOSE

datatype logMessage =
    NoDiffsFound uri
  | NoDiffChangesToTranslate
  | ErrorTranslatingChanges error
  | FailedToParseJSON uri error
  | UpdatedInStore uri

text \<open>
  The singletons the module reaches through \<^verbatim>\<open>getInstance()\<close>, as one state:
  the workspace files with the trace of the writes, the cache of the
  \<^verbatim>\<open>TranslationStore\<close>, the \<^verbatim>\<open>FileLockStore\<close> with the lock releases
  that \<^verbatim>\<open>setTimeout\<close> has scheduled, the translation files of the
  \<^verbatim>\<open>FileLocationStore\<close>, the status bar, the log and the trace of the calls made to
  the translation provider (values, source language, target language).
\<close>

record world =
  files :: "uri \<rightharpoonup> string"
  writes :: "(uri \<times> string) list"
  translationFileContents :: "uri \<rightharpoonup> json"
  fileLocks :: "uri list"
  scheduledReleases :: "uri list"
  translationFiles :: "uri list"
  statusBar :: StatusBarState
  logged :: "(LogLevel \<times> logMessage) list"
  providerCalls :: "(json option list \<times> string \<times> string) list"

text \<open>
  A value that a property lookup can return: a parsed JSON value, or a built-in of the
  engine (a function or a prototype object), known by a name.
\<close>

datatype jsValue = Parsed json | Native string

text \<open>
  What the module calls and the repository's files under study do not contain, as
  parameters: the built-ins \<^verbatim>\<open>JSON.parse\<close> (\<open>None\<close> when it throws) and
  \<^verbatim>\<open>JSON.stringify(value, null, indent)\<close>, \<^verbatim>\<open>path.basename\<close>, lodash's
  \<^verbatim>\<open>unset\<close>, the helpers \<^verbatim>\<open>diffJsonObjects\<close>, \<^verbatim>\<open>applyChange\<close> and
  \<^verbatim>\<open>extractLocaleFromFileUri\<close>, the translation service (\<open>Inl\<close> when the call
  fails), the configured indentation, and the member that a value inherits from its
  prototype chain under a name (\<open>None\<close> when there is none, \<open>Parsed JNull\<close> for
  \<^verbatim>\<open>null\<close>). Of these only \<^verbatim>\<open>JSON.parse\<close> and the translation service are
  taken to throw.
\<close>

record env =
  JSON_parse :: "string \<Rightarrow> json option"
  JSON_stringify :: "json \<Rightarrow> nat \<Rightarrow> string"
  basename :: "string \<Rightarrow> string"
  unset :: "json \<Rightarrow> string \<Rightarrow> json"
  diffJsonObjects :: "json \<Rightarrow> json \<Rightarrow> diff list"
  applyChange :: "json \<Rightarrow> diff \<Rightarrow> json"
  extractLocaleFromFileUri :: "uri \<Rightarrow> string"
  translateKeysAsync :: "json option list \<Rightarrow> string \<Rightarrow> string \<Rightarrow> error + json list"
  numberOfSpacesForIndentation :: nat
  inheritedMember :: "jsValue \<Rightarrow> string \<Rightarrow> jsValue option"

record translationModuleContext =
  inputPath :: uri
  jsonContent :: "string option"

definition logMessage :: "LogLevel \<Rightarrow> logMessage \<Rightarrow> world \<Rightarrow> world" where
  "logMessage level msg w = w\<lparr>logged := logged w @ [(level, msg)]\<rparr>"

subsection \<open>TranslationStore\<close>

text \<open>
  \<^verbatim>\<open>getTranslationFileDiffs\<close>: the new content is parsed (a \<^verbatim>\<open>SyntaxError\<close> leaves the
  function), the cached content is looked up and \<^verbatim>\<open>oldJsonObject ?? {}\<close> replaces
  \<^verbatim>\<open>undefined\<close> and \<^verbatim>\<open>null\<close> by the empty object.
\<close>

definition getTranslationFileDiffs :: "env \<Rightarrow> world \<Rightarrow> uri \<Rightarrow> string \<Rightarrow> error + diff list" where
  "getTranslationFileDiffs e w fileUri newJsonContent =
     (case JSON_parse e newJsonContent of
        None \<Rightarrow> Inl SyntaxError
      | Some newJsonObject \<Rightarrow>
          Inr (diffJsonObjects e
                 (case translationFileContents w fileUri of
                    None \<Rightarrow> JObj []
                  | Some JNull \<Rightarrow> JObj []
                  | Some oldJsonObject \<Rightarrow> oldJsonObject)
                 newJsonObject))"

definition updateEntry :: "env \<Rightarrow> uri \<Rightarrow> string \<Rightarrow> world \<Rightarrow> (error + unit) \<times> world" where
  "updateEntry e fileUri updatedJsonContent w =
     (case JSON_parse e updatedJsonContent of
        None \<Rightarrow> (Inl SyntaxError, w)
      | Some updatedJsonObject \<Rightarrow>
          (Inr (),
           logMessage VERBOSE (UpdatedInStore fileUri)
             (w\<lparr>translationFileContents := (translationFileContents w)(fileUri \<mapsto> updatedJsonObject)\<rparr>)))"

subsection \<open>File access, locks, location index and status bar\<close>

text \<open>
  Modelled from the spec: \<^verbatim>\<open>FileReader.readWorkspaceFileAsync\<close> and
  \<^verbatim>\<open>FileWriter.writeToWorkspaceFileAsync\<close>, the workspace file system's
  \<^verbatim>\<open>read(path) \<rightarrow> text\<close> and \<^verbatim>\<open>write(path, text) \<rightarrow> ack\<close>. Reading a path that holds
  no file fails; a write replaces the text and is recorded.
\<close>

definition readWorkspaceFileAsync :: "world \<Rightarrow> uri \<Rightarrow> error + string" where
  "readWorkspaceFileAsync w fileUri =
     (case files w fileUri of None \<Rightarrow> Inl (FileNotFound fileUri) | Some content \<Rightarrow> Inr content)"

definition writeToWorkspaceFileAsync :: "uri \<Rightarrow> string \<Rightarrow> world \<Rightarrow> world" where
  "writeToWorkspaceFileAsync fileUri content w =
     w\<lparr>files := (files w)(fileUri \<mapsto> content), writes := writes w @ [(fileUri, content)]\<rparr>"

text \<open>
  Modelled from the spec: the \<^verbatim>\<open>FileLockStore\<close> with \<^verbatim>\<open>acquire(path)\<close>
  (\<^verbatim>\<open>addLock\<close>), \<^verbatim>\<open>has(path)\<close> (\<^verbatim>\<open>hasFileLock\<close>) and the release
  (\<^verbatim>\<open>delete\<close>), which the module schedules with \<^verbatim>\<open>setTimeout(..., 500)\<close>: the
  scheduled release is recorded and runs after the event.
\<close>

definition hasFileLock :: "world \<Rightarrow> uri \<Rightarrow> bool" where
  "hasFileLock w fileUri \<longleftrightarrow> fileUri \<in> set (fileLocks w)"

definition addLock :: "uri \<Rightarrow> world \<Rightarrow> world" where
  "addLock fileUri w = w\<lparr>fileLocks := fileLocks w @ [fileUri]\<rparr>"

definition deleteLock :: "uri \<Rightarrow> world \<Rightarrow> world" where
  "deleteLock fileUri w = w\<lparr>fileLocks := removeAll fileUri (fileLocks w)\<rparr>"

definition setTimeoutDeleteLock :: "uri \<Rightarrow> world \<Rightarrow> world" where
  "setTimeoutDeleteLock fileUri w = w\<lparr>scheduledReleases := scheduledReleases w @ [fileUri]\<rparr>"

text \<open>
  Modelled from the spec: the \<^verbatim>\<open>FileLocationStore\<close>; \<^verbatim>\<open>addOrUpdateFile\<close>
  registers or refreshes the path in the location index, \<^verbatim>\<open>getTranslationFiles\<close>
  lists the registered translation files.
\<close>

definition addOrUpdateFile :: "uri \<Rightarrow> world \<Rightarrow> world" where
  "addOrUpdateFile fileUri w =
     w\<lparr>translationFiles :=
         (if fileUri \<in> set (translationFiles w) then translationFiles w
          else translationFiles w @ [fileUri])\<rparr>"

text \<open>
  Modelled from the spec: the status indicator's \<^verbatim>\<open>setState(state, message)\<close>
  (\<^verbatim>\<open>updateState\<close>) and \<^verbatim>\<open>setIdle()\<close>.
\<close>

definition updateState :: "StatusBarState \<Rightarrow> world \<Rightarrow> world" where
  "updateState st w = w\<lparr>statusBar := st\<rparr>"

definition setIdle :: "world \<Rightarrow> world" where
  "setIdle w = w\<lparr>statusBar := Idle\<rparr>"

section \<open>Reading a path in a tree\<close>

text \<open>
  \<^verbatim>\<open>obj?.[key]\<close> reads a property of a value. On a parsed JSON value the lookup
  first finds the value's own properties: the members of an object, and for an array and
  a string \<^verbatim>\<open>length\<close> and the decimal names of the indices (a string answers with the
  one-character string there). A name that is no own property is looked up on the
  prototype chain, where the engine's built-ins live (\<^verbatim>\<open>constructor\<close>,
  \<^verbatim>\<open>toString\<close>, \<^verbatim>\<open>hasOwnProperty\<close>, \<^verbatim>\<open>__proto__\<close>, ... of
  \<^verbatim>\<open>Object.prototype\<close>, and the methods of \<^verbatim>\<open>Array.prototype\<close>,
  \<^verbatim>\<open>String.prototype\<close>, \<^verbatim>\<open>Number.prototype\<close> and \<^verbatim>\<open>Boolean.prototype\<close>).
  What is found there is a function or a prototype object, no JSON value: it is a
  \<open>Native\<close> value, known by a name, and it has members of its own in turn
  (\<^verbatim>\<open>constructor.name\<close> is a string). The table of the built-ins is the field
  \<open>inheritedMember\<close> of the collaborators; it answers \<open>None\<close> where the chain
  holds no member of that name.
\<close>

fun decimal :: "nat \<Rightarrow> string" where
  "decimal n =
     (if n < 10 then [''0123456789'' ! n]
      else decimal (n div 10) @ [''0123456789'' ! (n mod 10)])"

declare decimal.simps [simp del]

text \<open>A numeric key is turned into its decimal property name.\<close>

fun propertyName :: "key \<Rightarrow> string" where
  "propertyName (Name s) = s"
| "propertyName (Index n) = decimal n"

definition indexOfName :: "string \<Rightarrow> nat \<Rightarrow> nat option" where
  "indexOfName s len = find (\<lambda>n. decimal n = s) [0..<len]"

fun ownProperty :: "json \<Rightarrow> string \<Rightarrow> json option" where
  "ownProperty (JObj kvs) name = map_of kvs name"
| "ownProperty (JArr xs) name =
     (if name = ''length'' then Some (JNum (int (length xs)))
      else map_option (\<lambda>n. xs ! n) (indexOfName name (length xs)))"
| "ownProperty (JStr s) name =
     (if name = ''length'' then Some (JNum (int (length s)))
      else map_option (\<lambda>n. JStr [s ! n]) (indexOfName name (length s)))"
| "ownProperty _ name = None"

definition getProperty :: "env \<Rightarrow> jsValue \<Rightarrow> key \<Rightarrow> jsValue option" where
  "getProperty e obj k =
     (case obj of
        Parsed j \<Rightarrow>
          (case ownProperty j (propertyName k) of
             Some v \<Rightarrow> Some (Parsed v)
           | None \<Rightarrow> inheritedMember e obj (propertyName k))
      | Native n \<Rightarrow> inheritedMember e obj (propertyName k))"

text \<open>
  The optional chain answers \<^verbatim>\<open>undefined\<close> for \<^verbatim>\<open>undefined\<close> and for
  \<^verbatim>\<open>null\<close> and reads the property of every other value.
\<close>

definition optionalChain :: "env \<Rightarrow> jsValue option \<Rightarrow> key \<Rightarrow> jsValue option" where
  "optionalChain e obj k =
     (case obj of
        None \<Rightarrow> None
      | Some v \<Rightarrow> if v = Parsed JNull then None else getProperty e v k)"

text \<open>\<^verbatim>\<open>path.reduce((obj, key) => obj?.[key], target)\<close>\<close>

definition reducePath :: "env \<Rightarrow> json \<Rightarrow> key list \<Rightarrow> jsValue option" where
  "reducePath e target p = foldl (optionalChain e) (Some (Parsed target)) p"

section \<open>TranslationModule\<close>

definition findRelatedFiles :: "env \<Rightarrow> world \<Rightarrow> string \<Rightarrow> uri list" where
  "findRelatedFiles e w currentFilePath =
     filter (\<lambda>fileUri. fileUri \<noteq> currentFilePath \<and>
                        basename e fileUri = basename e currentFilePath)
            (translationFiles w)"

text \<open>
  The test at the end of the filter callback of \<^verbatim>\<open>translateChanges\<close>:
  \<^verbatim>\<open>currentValue === undefined || currentValue === null || currentValue === ''\<close>.
\<close>

definition isMissing :: "jsValue option \<Rightarrow> bool" where
  "isMissing currentValue \<longleftrightarrow>
     currentValue = None \<or> currentValue = Some (Parsed JNull) \<or>
     currentValue = Some (Parsed (JStr ''''))"

text \<open>
  \<^verbatim>\<open>changes.filter(change => ...)\<close> of \<^verbatim>\<open>translateChanges\<close>. The callback calls
  \<^verbatim>\<open>change.path.reduce\<close> without a guard, so an entry without a path raises a
  \<^verbatim>\<open>TypeError\<close> there.
\<close>

fun changesToTranslate :: "env \<Rightarrow> json \<Rightarrow> diff list \<Rightarrow> error + diff list" where
  "changesToTranslate e fileContent [] = Inr []"
| "changesToTranslate e fileContent (change # changes) =
     (case path change of
        None \<Rightarrow> Inl TypeError
      | Some p \<Rightarrow>
          (case changesToTranslate e fileContent changes of
             Inl err \<Rightarrow> Inl err
           | Inr kept \<Rightarrow>
               Inr (if isMissing (reducePath e fileContent p) then change # kept else kept)))"

text \<open>\<^verbatim>\<open>translatedValues[index]\<close>, which is \<^verbatim>\<open>undefined\<close> past the end.\<close>

definition valueAtIndex :: "'a list \<Rightarrow> nat \<Rightarrow> 'a option" where
  "valueAtIndex xs i = (if i < length xs then Some (xs ! i) else None)"

text \<open>
  \<^verbatim>\<open>changesToTranslate.map((change, index) => ({...change, rhs: translatedValues[index]}))\<close>
\<close>

definition withTranslatedValues :: "diff list \<Rightarrow> json list \<Rightarrow> diff list" where
  "withTranslatedValues changes translatedValues =
     map (\<lambda>(index, change). change\<lparr>rhs := valueAtIndex translatedValues index\<rparr>)
         (enumerate 0 changes)"

text \<open>
  The loop of \<^verbatim>\<open>translateChanges\<close> over the target files; the table
  \<^verbatim>\<open>translationsByLanguage\<close> is threaded through. Whatever is thrown (by the read, by
  \<^verbatim>\<open>JSON.parse\<close>, by the filter callback or by the translation service) leaves the
  function at once.
\<close>

fun translateChanges ::
  "env \<Rightarrow> string \<Rightarrow> diff list \<Rightarrow> uri list \<Rightarrow> (string \<rightharpoonup> diff list) \<Rightarrow> world
     \<Rightarrow> (error + (string \<rightharpoonup> diff list)) \<times> world" where
  "translateChanges e sourceLanguage changes [] translationsByLanguage w =
     (Inr translationsByLanguage, w)"
| "translateChanges e sourceLanguage changes (targetFile # targetFiles) translationsByLanguage w =
     (let targetLanguage = extractLocaleFromFileUri e targetFile in
      case readWorkspaceFileAsync w targetFile of
        Inl err \<Rightarrow> (Inl err, w)
      | Inr content \<Rightarrow>
          (case JSON_parse e content of
             None \<Rightarrow> (Inl SyntaxError, w)
           | Some fileContent \<Rightarrow>
               (case changesToTranslate e fileContent changes of
                  Inl err \<Rightarrow> (Inl err, w)
                | Inr toTranslate \<Rightarrow>
                    if length toTranslate > 0 then
                      (let valuesToTranslate = map rhs toTranslate;
                           w' = w\<lparr>providerCalls := providerCalls w @
                                   [(valuesToTranslate, sourceLanguage, targetLanguage)]\<rparr>
                       in case translateKeysAsync e valuesToTranslate sourceLanguage targetLanguage of
                            Inl err \<Rightarrow> (Inl err, w')
                          | Inr translatedValues \<Rightarrow>
                              translateChanges e sourceLanguage changes targetFiles
                                (translationsByLanguage
                                   (targetLanguage \<mapsto> withTranslatedValues toTranslate translatedValues))
                                w')
                    else translateChanges e sourceLanguage changes targetFiles
                           translationsByLanguage w)))"

text \<open>\<^verbatim>\<open>change.path?.join('.')\<close>\<close>

fun joinPath :: "key list \<Rightarrow> string" where
  "joinPath [] = ''''"
| "joinPath [k] = propertyName k"
| "joinPath (k # ks) = propertyName k @ ''.'' @ joinPath ks"

text \<open>
  The callback of \<^verbatim>\<open>diffs?.forEach\<close> in \<^verbatim>\<open>applyDiffsToJSON\<close>. The target is
  mutated in place there; here the new tree is returned. Kind \<^verbatim>\<open>'N'\<close> matches
  neither branch.
\<close>

definition applyDiffToJSON :: "env \<Rightarrow> json \<Rightarrow> diff \<Rightarrow> json" where
  "applyDiffToJSON e target change =
     (if kind change = KindD then
        (case path change of
           None \<Rightarrow> target
         | Some p \<Rightarrow> if joinPath p \<noteq> '''' then unset e target (joinPath p) else target)
      else if kind change = KindE \<or> kind change = KindA then
        (case path change of
           None \<Rightarrow> target
         | Some p \<Rightarrow>
             if reducePath e target p \<noteq> None then applyChange e target change else target)
      else target)"

definition applyDiffsToJSON :: "env \<Rightarrow> json \<Rightarrow> diff list option \<Rightarrow> json" where
  "applyDiffsToJSON e target diffs =
     (case diffs of None \<Rightarrow> target | Some ds \<Rightarrow> foldl (applyDiffToJSON e) target ds)"

definition endsWithNewLine :: "string \<Rightarrow> bool" where
  "endsWithNewLine s \<longleftrightarrow> s \<noteq> [] \<and> last s = CHR 0x0A"

text \<open>
  The loop of \<^verbatim>\<open>applyTranslationsToFiles\<close>. A locked file is skipped; a file that
  cannot be read or parsed is logged and skipped; every other file is serialised again
  and written, whether or not the table holds entries for its language.
\<close>

fun applyTranslationsToFiles ::
  "env \<Rightarrow> uri list \<Rightarrow> (string \<rightharpoonup> diff list) \<Rightarrow> world \<Rightarrow> (error + unit) \<times> world" where
  "applyTranslationsToFiles e [] translationsByLanguage w = (Inr (), w)"
| "applyTranslationsToFiles e (fileUri # targetFiles) translationsByLanguage w =
     (if hasFileLock w fileUri then applyTranslationsToFiles e targetFiles translationsByLanguage w
      else
        case readWorkspaceFileAsync w fileUri of
          Inl err \<Rightarrow>
            applyTranslationsToFiles e targetFiles translationsByLanguage
              (logMessage ERROR (FailedToParseJSON fileUri err) w)
        | Inr fileContentAsString \<Rightarrow>
            (case JSON_parse e fileContentAsString of
               None \<Rightarrow>
                 applyTranslationsToFiles e targetFiles translationsByLanguage
                   (logMessage ERROR (FailedToParseJSON fileUri SyntaxError) w)
             | Some fileContent \<Rightarrow>
                 (let fileShouldEndWithNewLine = endsWithNewLine fileContentAsString;
                      targetLanguage = extractLocaleFromFileUri e fileUri;
                      diffs = translationsByLanguage targetLanguage;
                      newContent = applyDiffsToJSON e fileContent diffs;
                      stringified = JSON_stringify e newContent (numberOfSpacesForIndentation e);
                      stringifiedContent =
                        (if fileShouldEndWithNewLine \<and> \<not> endsWithNewLine stringified
                         then stringified @ [CHR 0x0A] else stringified);
                      w1 = addLock fileUri w;
                      w2 = writeToWorkspaceFileAsync fileUri stringifiedContent w1;
                      w3 = setTimeoutDeleteLock fileUri w2
                  in case updateEntry e fileUri stringifiedContent w3 of
                       (Inl err, w4) \<Rightarrow> (Inl err, w4)
                     | (Inr u, w4) \<Rightarrow>
                         applyTranslationsToFiles e targetFiles translationsByLanguage w4)))"

text \<open>
  The statements of the \<^verbatim>\<open>try\<close> block of \<^verbatim>\<open>doExecuteAsync\<close>: the status bar is set
  to running, the changes are translated for the related files, the translations are
  applied and written, and the cache entry of the originating file is replaced by the
  new content. The first error ends the block.
\<close>

definition tryTranslation ::
  "env \<Rightarrow> translationModuleContext \<Rightarrow> string \<Rightarrow> diff list \<Rightarrow> world \<Rightarrow> (error + unit) \<times> world" where
  "tryTranslation e ctx content changes w =
     (let w2 = updateState Running w;
          sourceLanguage = extractLocaleFromFileUri e (inputPath ctx);
          otherFiles = findRelatedFiles e w2 (inputPath ctx)
      in case translateChanges e sourceLanguage changes otherFiles Map.empty w2 of
           (Inl err, w3) \<Rightarrow> (Inl err, w3)
         | (Inr translationsByLanguage, w3) \<Rightarrow>
             (case applyTranslationsToFiles e otherFiles translationsByLanguage w3 of
                (Inl err, w4) \<Rightarrow> (Inl err, w4)
              | (Inr u, w4) \<Rightarrow> updateEntry e (inputPath ctx) content w4))"

text \<open>
  \<^verbatim>\<open>doExecuteAsync\<close>. The first three exits come before the \<^verbatim>\<open>try\<close>; an error
  of \<^verbatim>\<open>getTranslationFileDiffs\<close> leaves the function. An error of the \<^verbatim>\<open>try\<close>
  block is caught and logged, and the \<^verbatim>\<open>finally\<close> block sets the status bar to
  idle.
\<close>

definition doExecuteAsync :: "env \<Rightarrow> translationModuleContext \<Rightarrow> world \<Rightarrow> (error + unit) \<times> world" where
  "doExecuteAsync e ctx w =
     (case jsonContent ctx of
        None \<Rightarrow> (Inr (), w)
      | Some content \<Rightarrow>
          if content = '''' then (Inr (), w)
          else
            case getTranslationFileDiffs e w (inputPath ctx) content of
              Inl err \<Rightarrow> (Inl err, w)
            | Inr diffs \<Rightarrow>
                if diffs = [] then
                  (Inr (), logMessage VERBOSE (NoDiffsFound (inputPath ctx)) w)
                else
                  (let w1 = addOrUpdateFile (inputPath ctx) w;
                       changes = extractRelevantChanges diffs
                   in if changes = [] then
                        (Inr (), logMessage VERBOSE NoDiffChangesToTranslate w1)
                      else
                        (case tryTranslation e ctx content changes w1 of
                           (Inl err, w5) \<Rightarrow>
                             (Inr (), setIdle (logMessage ERROR (ErrorTranslatingChanges err) w5))
                         | (Inr u, w5) \<Rightarrow> (Inr (), setIdle w5))))"

section \<open>BaseActionModule\<close>

text \<open>
  A module holds its own logic (\<^verbatim>\<open>doExecute\<close>) and the next module of the chain, or
  \<^verbatim>\<open>null\<close>. The logic works on a state \<open>'s\<close> and may throw. In the source it
  resolves to \<^verbatim>\<open>void\<close>; \<^verbatim>\<open>execute\<close> awaits it and drops whatever it resolved
  to, so the model lets it resolve to a value of any type \<open>'r\<close>. The chains of the
  model are finite: a module cannot be its own successor.
\<close>

datatype ('c, 's, 'r) actionModule =
  ActionModule
    (doExecute: "'c \<Rightarrow> 's \<Rightarrow> (error + 'r) \<times> 's")
    (nextModule: "('c, 's, 'r) actionModule option")

definition setNext ::
  "('c, 's, 'r) actionModule option \<Rightarrow> ('c, 's, 'r) actionModule \<Rightarrow> ('c, 's, 'r) actionModule" where
  "setNext m this = ActionModule (doExecute this) m"

fun execute :: "('c, 's, 'r) actionModule \<Rightarrow> 'c \<Rightarrow> 's \<Rightarrow> (error + unit) \<times> 's" where
  "execute (ActionModule run nxt) ctx s =
     (case run ctx s of
        (Inl err, s') \<Rightarrow> (Inl err, s')
      | (Inr r, s') \<Rightarrow>
          (case nxt of
             None \<Rightarrow> (Inr (), s')
           | Some m \<Rightarrow> execute m ctx s'))"

section \<open>FileWatcherCreator\<close>

text \<open>
  The callback that \<^verbatim>\<open>createFileWatchersForFilesMatchingGlobAsync\<close> registers with
  \<^verbatim>\<open>onDidChange\<close>, the same in both versions of the file:
  \<^verbatim>\<open>if (!disableFlags.some(flag => flag())) await fileChangeHandler?.handleFileChangeAsync(uri)\<close>.
  The disable flags are thunks of the caller, which may read the state; the handler is
  what \<^verbatim>\<open>createFileChangeHandler\<close> returned, \<^verbatim>\<open>undefined\<close> for a file it does not
  support.
\<close>

definition onDidChange ::
  "(world \<Rightarrow> bool) list \<Rightarrow> (uri \<Rightarrow> world \<Rightarrow> (error + unit) \<times> world) option \<Rightarrow> uri \<Rightarrow> world
     \<Rightarrow> (error + unit) \<times> world" where
  "onDidChange disableFlags fileChangeHandler fileUri w =
     (if list_ex (\<lambda>flag. flag w) disableFlags then (Inr (), w)
      else
        case fileChangeHandler of
          None \<Rightarrow> (Inr (), w)
        | Some handleFileChangeAsync \<Rightarrow> handleFileChangeAsync fileUri w)"

section \<open>The helpers of util-file-diff and the path utilities\<close>

fun setProperty :: "string \<Rightarrow> json \<Rightarrow> (string \<times> json) list \<Rightarrow> (string \<times> json) list" where
  "setProperty k v [] = [(k, v)]"
| "setProperty k v (kv # kvs) =
     (if fst kv = k then (k, v) # kvs else kv # setProperty k v kvs)"

definition deleteProperty :: "string \<Rightarrow> (string \<times> json) list \<Rightarrow> (string \<times> json) list" where
  "deleteProperty k kvs = filter (\<lambda>kv. fst kv \<noteq> k) kvs"

text \<open>
  Modelled from the spec: \<^verbatim>\<open>diffJsonObjects\<close> of util-file-diff, the DiffEngine. It
  recurses into nested objects in the key order of the old tree, reports a key that only
  the old tree has as Deleted and one that only the new tree has as Added, and a value
  that changed (also in type) as Edited; equal trees give no entry. The spec does not
  say how a change between two arrays is split; one ArrayChange entry stands for it.
\<close>

fun diffAtPath :: "key list \<Rightarrow> json \<Rightarrow> json \<Rightarrow> diff list" where
  "diffAtPath p (JObj old) (JObj new) =
     concat (map (\<lambda>kv. case map_of new (fst kv) of
                          None \<Rightarrow> [\<lparr>kind = KindD, path = Some (p @ [Name (fst kv)]),
                                    lhs = Some (snd kv), rhs = None\<rparr>]
                        | Some v \<Rightarrow> diffAtPath (p @ [Name (fst kv)]) (snd kv) v) old) @
     map (\<lambda>kv. \<lparr>kind = KindN, path = Some (p @ [Name (fst kv)]), lhs = None, rhs = Some (snd kv)\<rparr>)
         (filter (\<lambda>kv. map_of old (fst kv) = None) new)"
| "diffAtPath p (JArr old) (JArr new) =
     (if old = new then []
      else [\<lparr>kind = KindA, path = Some p, lhs = None, rhs = None\<rparr>])"
| "diffAtPath p old new =
     (if old = new then []
      else [\<lparr>kind = KindE, path = Some p, lhs = Some old, rhs = Some new\<rparr>])"

definition diffJsonObjectsModel :: "json \<Rightarrow> json \<Rightarrow> diff list" where
  "diffJsonObjectsModel old new = diffAtPath [] old new"

text \<open>
  Modelled from the spec: \<^verbatim>\<open>applyChange\<close> of util-file-diff. Deleted removes the
  path; Added and Edited set the path's value, creating the objects on the way that the
  target lacks. The spec does not say how an ArrayChange is applied; the model leaves
  the target as it is.
\<close>

fun setAtPath :: "json \<Rightarrow> key list \<Rightarrow> json \<Rightarrow> json" where
  "setAtPath target [] v = v"
| "setAtPath (JObj kvs) (k # ks) v =
     JObj (setProperty (propertyName k)
             (setAtPath (case map_of kvs (propertyName k) of None \<Rightarrow> JObj [] | Some child \<Rightarrow> child)
                ks v)
             kvs)"
| "setAtPath (JArr xs) (Index n # ks) v =
     (if n < length xs then JArr (xs[n := setAtPath (xs ! n) ks v]) else JArr xs)"
| "setAtPath target (k # ks) v = target"

fun removeAtPath :: "json \<Rightarrow> key list \<Rightarrow> json" where
  "removeAtPath (JObj kvs) [k] = JObj (deleteProperty (propertyName k) kvs)"
| "removeAtPath (JObj kvs) (k # ks) =
     (case map_of kvs (propertyName k) of
        None \<Rightarrow> JObj kvs
      | Some child \<Rightarrow> JObj (setProperty (propertyName k) (removeAtPath child ks) kvs))"
| "removeAtPath target ks = target"

definition applyChangeModel :: "json \<Rightarrow> diff \<Rightarrow> json" where
  "applyChangeModel target change =
     (case path change of
        None \<Rightarrow> target
      | Some p \<Rightarrow>
          if kind change = KindD then removeAtPath target p
          else if kind change = KindA then target
          else (case rhs change of
                  None \<Rightarrow> removeAtPath target p
                | Some v \<Rightarrow> setAtPath target p v))"

fun splitOn :: "char \<Rightarrow> string \<Rightarrow> string list" where
  "splitOn c [] = [[]]"
| "splitOn c (x # xs) =
     (if x = c then [] # splitOn c xs
      else (case splitOn c xs of [] \<Rightarrow> [[x]] | y # ys \<Rightarrow> (x # y) # ys))"

text \<open>
  lodash's \<^verbatim>\<open>unset(target, path)\<close> for a path of property names joined by dots.
\<close>

definition unsetModel :: "json \<Rightarrow> string \<Rightarrow> json" where
  "unsetModel target p = removeAtPath target (map Name (splitOn CHR ''.'' p))"

text \<open>
  \<^verbatim>\<open>path.basename\<close> for a path with \<^verbatim>\<open>/\<close> as separator that does not end
  in one: the last segment.
\<close>

definition basenameModel :: "string \<Rightarrow> string" where
  "basenameModel p = last (splitOn CHR ''/'' p)"

text \<open>
  Modelled from the spec: \<^verbatim>\<open>extractLocaleFromFileUri\<close>, by the path convention
  \<^verbatim>\<open><locale-directory>/<namespace>.json\<close>: the name of the directory that holds the
  file.
\<close>

definition extractLocaleModel :: "uri \<Rightarrow> string" where
  "extractLocaleModel p =
     (let segments = splitOn CHR ''/'' p
      in if length segments < 2 then '''' else segments ! (length segments - 2))"

section \<open>A concrete workspace\<close>

text \<open>
  The collaborators for the concrete runs below. The configured indentation is 0, where
  \<^verbatim>\<open>JSON.stringify(value, null, 0)\<close> writes no white space; the serialiser escapes
  the quote and the backslash (the documents of the runs hold no control character).
  \<^verbatim>\<open>JSON.parse\<close> is given by the table of the texts that occur in the runs; the one
  other text read there, \<^verbatim>\<open>{"a":\<close>, is not JSON.
\<close>

fun joinWith :: "string \<Rightarrow> string list \<Rightarrow> string" where
  "joinWith sep [] = ''''"
| "joinWith sep [x] = x"
| "joinWith sep (x # xs) = x @ sep @ joinWith sep xs"

definition quoteString :: "string \<Rightarrow> string" where
  "quoteString s =
     [CHR 0x22] @
     concat (map (\<lambda>c. if c = CHR 0x22 then [CHR 0x5C, CHR 0x22]
                       else if c = CHR 0x5C then [CHR 0x5C, CHR 0x5C]
                       else [c]) s) @
     [CHR 0x22]"

fun stringifyCompact :: "json \<Rightarrow> string" where
  "stringifyCompact JNull = ''null''"
| "stringifyCompact (JBool b) = (if b then ''true'' else ''false'')"
| "stringifyCompact (JNum n) = (if n < 0 then ''-'' @ decimal (nat (- n)) else decimal (nat n))"
| "stringifyCompact (JStr s) = quoteString s"
| "stringifyCompact (JArr xs) = ''['' @ joinWith '','' (map stringifyCompact xs) @ '']''"
| "stringifyCompact (JObj kvs) =
     ''{'' @ joinWith '','' (map (\<lambda>kv. quoteString (fst kv) @ '':'' @ stringifyCompact (snd kv)) kvs)
       @ ''}''"

definition exampleDocuments :: "(string \<times> json) list" where
  \<open>exampleDocuments =
       [(''{"common":{"save":"Save"}}'',
           JObj [(''common'', JObj [(''save'', JStr ''Save'')])]),
        (''{"common":{"save":"Save","cancel":"Cancel"}}'',
           JObj [(''common'', JObj [(''save'', JStr ''Save''), (''cancel'', JStr ''Cancel'')])]),
        (''{"common":{"save":"Enregistrer"}}'',
           JObj [(''common'', JObj [(''save'', JStr ''Enregistrer'')])]),
        (''{"common":{"save":"Speichern"}}'',
           JObj [(''common'', JObj [(''save'', JStr ''Speichern'')])]),
        (''{"a":{"b":"hi"}}'', JObj [(''a'', JObj [(''b'', JStr ''hi'')])]),
        (''{"a":{"b":"hello"}}'', JObj [(''a'', JObj [(''b'', JStr ''hello'')])]),
        (''{"a":{"b":""}}'', JObj [(''a'', JObj [(''b'', JStr '''')])]),
        (''{"a":{"b":"ya"}}'', JObj [(''a'', JObj [(''b'', JStr ''ya'')])]),
        (''{"a":{"b":"bonjour"}}'', JObj [(''a'', JObj [(''b'', JStr ''bonjour'')])]),
        (''{"common":{"save":"Save","cancel":"Cancel","retries":3}}'',
           JObj [(''common'', JObj [(''save'', JStr ''Save''), (''cancel'', JStr ''Cancel''),
                                    (''retries'', JNum 3)])])]\<close>

definition parseExample :: "string \<Rightarrow> json option" where
  "parseExample = map_of exampleDocuments"

text \<open>
  The translation service of the runs: it translates into French and fails for every
  other target language.
\<close>

definition translateExample :: "json option list \<Rightarrow> string \<Rightarrow> string \<Rightarrow> error + json list" where
  "translateExample valuesToTranslate sourceLanguage targetLanguage =
     (if targetLanguage = ''fr'' then
        Inr (map (\<lambda>v. if v = Some (JStr ''Cancel'') then JStr ''Annuler''
                        else if v = Some (JStr ''hello'') then JStr ''bonjour''
                        else JStr ''?'') valuesToTranslate)
      else Inl (ProviderFailure ''target language not supported''))"

text \<open>
  The built-ins of the runs. Every property read there is read from a plain object,
  which inherits the members of \<^verbatim>\<open>Object.prototype\<close>; no run reads a property of
  an array, a string, a number or a built-in, and the table holds no member for them.
\<close>

definition objectPrototypeMembers :: "string list" where
  "objectPrototypeMembers =
     [''constructor'', ''__defineGetter__'', ''__defineSetter__'', ''hasOwnProperty'',
      ''__lookupGetter__'', ''__lookupSetter__'', ''isPrototypeOf'', ''propertyIsEnumerable'',
      ''toString'', ''valueOf'', ''__proto__'', ''toLocaleString'']"

definition inheritedMemberExample :: "jsValue \<Rightarrow> string \<Rightarrow> jsValue option" where
  "inheritedMemberExample obj name =
     (case obj of
        Parsed (JObj kvs) \<Rightarrow>
          if name \<in> set objectPrototypeMembers then Some (Native (''Object.prototype.'' @ name))
          else None
      | _ \<Rightarrow> None)"

definition exampleEnv :: env where
  "exampleEnv =
     \<lparr>JSON_parse = parseExample,
      JSON_stringify = (\<lambda>v indent. stringifyCompact v),
      basename = basenameModel,
      unset = unsetModel,
      diffJsonObjects = diffJsonObjectsModel,
      applyChange = applyChangeModel,
      extractLocaleFromFileUri = extractLocaleModel,
      translateKeysAsync = translateExample,
      numberOfSpacesForIndentation = 0,
      inheritedMember = inheritedMemberExample\<rparr>"

definition emptyWorld :: world where
  "emptyWorld =
     \<lparr>files = Map.empty, writes = [], translationFileContents = Map.empty, fileLocks = [],
      scheduledReleases = [], translationFiles = [], statusBar = Idle, logged = [],
      providerCalls = []\<rparr>"

text \<open>
  The spec's end-to-end example: \<^verbatim>\<open>en/common.json\<close> gains \<^verbatim>\<open>common.cancel\<close>, the
  cache still holds the old content, and \<^verbatim>\<open>fr/common.json\<close> lacks the key.
\<close>

definition addedKeyWorld :: world where
  \<open>addedKeyWorld =
     emptyWorld\<lparr>
       files := [''/locales/en/common.json'' \<mapsto> ''{"common":{"save":"Save","cancel":"Cancel"}}'',
                 ''/locales/fr/common.json'' \<mapsto> ''{"common":{"save":"Enregistrer"}}''],
       translationFileContents :=
         [''/locales/en/common.json'' \<mapsto> JObj [(''common'', JObj [(''save'', JStr ''Save'')])],
          ''/locales/fr/common.json'' \<mapsto> JObj [(''common'', JObj [(''save'', JStr ''Enregistrer'')])]],
       translationFiles := [''/locales/en/common.json'', ''/locales/fr/common.json'']\<rparr>\<close>



text \<open>The same file gains a string and a number at once.\<close>

definition addedNumberContext :: translationModuleContext where
  \<open>addedNumberContext =
     \<lparr>inputPath = ''/locales/en/common.json'',
      jsonContent = Some ''{"common":{"save":"Save","cancel":"Cancel","retries":3}}''\<rparr>\<close>

text \<open>\<^verbatim>\<open>common.cancel\<close> is removed from \<^verbatim>\<open>en/common.json\<close> again.\<close>

definition deletionWorld :: world where
  \<open>deletionWorld =
     emptyWorld\<lparr>
       files := [''/locales/en/common.json'' \<mapsto> ''{"common":{"save":"Save"}}'',
                 ''/locales/fr/common.json'' \<mapsto> ''{"common":{"save":"Enregistrer"}}''],
       translationFileContents :=
         [''/locales/en/common.json'' \<mapsto>
            JObj [(''common'', JObj [(''save'', JStr ''Save''), (''cancel'', JStr ''Cancel'')])],
          ''/locales/fr/common.json'' \<mapsto> JObj [(''common'', JObj [(''save'', JStr ''Enregistrer'')])]],
       translationFiles := [''/locales/en/common.json'', ''/locales/fr/common.json'']\<rparr>\<close>

definition deletionContext :: translationModuleContext where
  \<open>deletionContext =
     \<lparr>inputPath = ''/locales/en/common.json'', jsonContent = Some ''{"common":{"save":"Save"}}''\<rparr>\<close>

text \<open>
  \<^verbatim>\<open>a.b\<close> of \<^verbatim>\<open>/app/locales/en/common.json\<close> is edited from \<^verbatim>\<open>"hi"\<close> to
  \<^verbatim>\<open>"hello"\<close>. In the first workspace two files of the French locale share the base
  name, one with an empty \<^verbatim>\<open>a.b\<close> and one with \<^verbatim>\<open>"ya"\<close>; in the second the German
  file is cut off in the middle and the French one has an empty \<^verbatim>\<open>a.b\<close>; in the third
  the French and the German file both have an empty \<^verbatim>\<open>a.b\<close>.
\<close>

definition editedContext :: translationModuleContext where
  \<open>editedContext =
     \<lparr>inputPath = ''/app/locales/en/common.json'', jsonContent = Some ''{"a":{"b":"hello"}}''\<rparr>\<close>

definition sameLocaleWorld :: world where
  \<open>sameLocaleWorld =
     emptyWorld\<lparr>
       files := [''/app/locales/en/common.json'' \<mapsto> ''{"a":{"b":"hello"}}'',
                 ''/app/locales/fr/common.json'' \<mapsto> ''{"a":{"b":""}}'',
                 ''/lib/locales/fr/common.json'' \<mapsto> ''{"a":{"b":"ya"}}''],
       translationFileContents :=
         [''/app/locales/en/common.json'' \<mapsto> JObj [(''a'', JObj [(''b'', JStr ''hi'')])],
          ''/app/locales/fr/common.json'' \<mapsto> JObj [(''a'', JObj [(''b'', JStr '''')])],
          ''/lib/locales/fr/common.json'' \<mapsto> JObj [(''a'', JObj [(''b'', JStr ''ya'')])]],
       translationFiles := [''/app/locales/en/common.json'', ''/app/locales/fr/common.json'',
                            ''/lib/locales/fr/common.json'']\<rparr>\<close>

definition malformedSiblingWorld :: world where
  \<open>malformedSiblingWorld =
     emptyWorld\<lparr>
       files := [''/app/locales/en/common.json'' \<mapsto> ''{"a":{"b":"hello"}}'',
                 ''/app/locales/de/common.json'' \<mapsto> ''{"a":'',
                 ''/app/locales/fr/common.json'' \<mapsto> ''{"a":{"b":""}}''],
       translationFileContents :=
         [''/app/locales/en/common.json'' \<mapsto> JObj [(''a'', JObj [(''b'', JStr ''hi'')])],
          ''/app/locales/fr/common.json'' \<mapsto> JObj [(''a'', JObj [(''b'', JStr '''')])]],
       translationFiles := [''/app/locales/en/common.json'', ''/app/locales/de/common.json'',
                            ''/app/locales/fr/common.json'']\<rparr>\<close>

definition providerFailureWorld :: world where
  \<open>providerFailureWorld =
     emptyWorld\<lparr>
       files := [''/app/locales/en/common.json'' \<mapsto> ''{"a":{"b":"hello"}}'',
                 ''/app/locales/fr/common.json'' \<mapsto> ''{"a":{"b":""}}'',
                 ''/app/locales/de/common.json'' \<mapsto> ''{"a":{"b":""}}''],
       translationFileContents :=
         [''/app/locales/en/common.json'' \<mapsto> JObj [(''a'', JObj [(''b'', JStr ''hi'')])],
          ''/app/locales/fr/common.json'' \<mapsto> JObj [(''a'', JObj [(''b'', JStr '''')])],
          ''/app/locales/de/common.json'' \<mapsto> JObj [(''a'', JObj [(''b'', JStr '''')])]],
       translationFiles := [''/app/locales/en/common.json'', ''/app/locales/fr/common.json'',
                            ''/app/locales/de/common.json'']\<rparr>\<close>

text \<open>
  Two modules that record their run in a list of names; the first resolves to
  \<open>False\<close>, the second to \<open>True\<close>.
\<close>

definition secondModule :: "(unit, string list, bool) actionModule" where
  "secondModule = ActionModule (\<lambda>ctx s. (Inr True, s @ [''second''])) None"

definition firstModule :: "(unit, string list, bool) actionModule" where
  "firstModule =
     setNext (Some secondModule) (ActionModule (\<lambda>ctx s. (Inr False, s @ [''first''])) None)"

text \<open>
  A change handler for the runs of the watcher: it reads the changed file and runs the
  translation module on its text.
\<close>

definition exampleHandler :: "uri \<Rightarrow> world \<Rightarrow> (error + unit) \<times> world" where
  "exampleHandler fileUri w =
     (case readWorkspaceFileAsync w fileUri of
        Inl err \<Rightarrow> (Inl err, w)
      | Inr content \<Rightarrow>
          doExecuteAsync exampleEnv \<lparr>inputPath = fileUri, jsonContent = Some content\<rparr> w)"

text \<open>The workspace of the end-to-end example while a lock is held for the English file.\<close>

definition lockedWorld :: world where
  "lockedWorld = addedKeyWorld\<lparr>fileLocks := [''/locales/en/common.json'']\<rparr>"

section \<open>The relevant-change filter, in the words of the spec and as the code has it\<close>

text \<open>
  The string leaves of a value: the value itself when it is a string, and the strings
  found in an object or an array at any depth.
\<close>

fun stringLeaves :: "json \<Rightarrow> string list" where
  "stringLeaves (JStr s) = [s]"
| "stringLeaves (JObj kvs) = concat (map (\<lambda>kv. stringLeaves (snd kv)) kvs)"
| "stringLeaves (JArr xs) = concat (map stringLeaves xs)"
| "stringLeaves _ = []"

text \<open>
  The spec keeps an entry when its kind is Added or Edited and its new value is
  non-empty, and says of an object value that it must contain at least one non-empty
  string leaf. A value is empty when it is absent, \<^verbatim>\<open>null\<close> or the empty string, as
  in the test for a missing sibling value; the condition on the leaves is stated for
  objects only, so a number, a boolean and an array are non-empty values under these
  words.
\<close>

fun nonEmptyValue :: "json option \<Rightarrow> bool" where
  "nonEmptyValue None = False"
| "nonEmptyValue (Some JNull) = False"
| "nonEmptyValue (Some (JStr s)) = (s \<noteq> '''')"
| "nonEmptyValue (Some (JObj kvs)) = list_ex (\<lambda>s. s \<noteq> '''') (stringLeaves (JObj kvs))"
| "nonEmptyValue (Some v) = True"

definition relevantPerSpec :: "diff \<Rightarrow> bool" where
  "relevantPerSpec d \<longleftrightarrow> (kind d = KindN \<or> kind d = KindE) \<and> nonEmptyValue (rhs d)"

text \<open>
  What the filter of the code comes to: the new value is a non-empty string, or an
  object or an array that holds a non-empty string at some depth.
\<close>

definition holdsNonEmptyString :: "json option \<Rightarrow> bool" where
  "holdsNonEmptyString v \<longleftrightarrow>
     (case v of None \<Rightarrow> False | Some j \<Rightarrow> list_ex (\<lambda>s. s \<noteq> '''') (stringLeaves j))"

definition relevantChange :: "diff \<Rightarrow> bool" where
  "relevantChange d \<longleftrightarrow> (kind d = KindN \<or> kind d = KindE) \<and> holdsNonEmptyString (rhs d)"

definition isScalar :: "json \<Rightarrow> bool" where
  "isScalar v \<longleftrightarrow> (case v of JNull \<Rightarrow> True | JBool b \<Rightarrow> True | JNum n \<Rightarrow> True | _ \<Rightarrow> False)"

section \<open>Auxiliary facts\<close>

subsection \<open>The documents of the concrete workspace\<close>

text \<open>
  Every text of the table that stands for \<^verbatim>\<open>JSON.parse\<close> in the runs is the
  serialisation of the document it is mapped to, and no text occurs twice.
\<close>

lemma exampleDocuments_serialised:
  "list_all (\<lambda>entry. stringifyCompact (snd entry) = fst entry) exampleDocuments \<and>
   distinct (map fst exampleDocuments)"
  by code_simp

subsection \<open>The string values that the filter inspects\<close>

lemma visit_stringLeaves:
  "(case v of JStr s \<Rightarrow> [s] | JObj ms \<Rightarrow> getAllStringValues v
      | JArr xs \<Rightarrow> getAllStringValues v | _ \<Rightarrow> []) = stringLeaves v"
proof (induction v rule: stringLeaves.induct)
  case (2 kvs)
  have "map (\<lambda>kv. case snd kv of JStr s \<Rightarrow> [s] | JObj ms \<Rightarrow> getAllStringValues (snd kv)
                | JArr xs \<Rightarrow> getAllStringValues (snd kv) | _ \<Rightarrow> []) kvs
        = map (\<lambda>kv. stringLeaves (snd kv)) kvs"
    by (rule map_cong [OF refl]) (rule "2.IH")
  then show ?case by (simp only: getAllStringValues.simps stringLeaves.simps json.case)
next
  case (3 xs)
  have "map (\<lambda>v. case v of JStr s \<Rightarrow> [s] | JObj ms \<Rightarrow> getAllStringValues v
                | JArr ys \<Rightarrow> getAllStringValues v | _ \<Rightarrow> []) xs
        = map stringLeaves xs"
    by (rule map_cong [OF refl]) (rule "3.IH")
  then show ?case by (simp only: getAllStringValues.simps stringLeaves.simps json.case)
qed simp_all

lemma getAllStringValues_composite:
  "getAllStringValues (JObj kvs) = stringLeaves (JObj kvs)"
  "getAllStringValues (JArr xs) = stringLeaves (JArr xs)"
  using visit_stringLeaves [of "JObj kvs"] visit_stringLeaves [of "JArr xs"] by simp_all

lemma nonempty_characters:
  "filter (\<lambda>v. v \<noteq> '''') (map (\<lambda>c. [c]) s) = map (\<lambda>c. [c]) s"
  by (induction s) auto

lemma filter_nonempty_iff: "(filter P xs \<noteq> []) = list_ex P xs"
  by (induction xs) auto

lemma relevant_iff:
  "((kind d = KindN \<or> kind d = KindE) \<and> rhs d \<noteq> Some (JStr '''') \<and>
      length (filter (\<lambda>v. v \<noteq> '''') (stringValuesOf (rhs d))) > 0) = relevantChange d"
proof (cases "rhs d")
  case None
  then show ?thesis by (simp add: relevantChange_def holdsNonEmptyString_def stringValuesOf_def)
next
  case (Some v)
  show ?thesis
  proof (cases v)
    case (JStr s)
    with Some show ?thesis
      by (cases s) (simp_all add: relevantChange_def holdsNonEmptyString_def stringValuesOf_def nonempty_characters)
  next
    case (JArr xs)
    with Some show ?thesis
      by (simp add: relevantChange_def holdsNonEmptyString_def stringValuesOf_def filter_nonempty_iff
            getAllStringValues_composite del: getAllStringValues.simps stringLeaves.simps)
  next
    case (JObj kvs)
    with Some show ?thesis
      by (simp add: relevantChange_def holdsNonEmptyString_def stringValuesOf_def filter_nonempty_iff
            getAllStringValues_composite del: getAllStringValues.simps stringLeaves.simps)
  qed (use Some in \<open>simp_all add: relevantChange_def holdsNonEmptyString_def stringValuesOf_def\<close>)
qed

lemma extractRelevantChanges_filter:
  "extractRelevantChanges diffs = filter relevantChange diffs"
  unfolding extractRelevantChanges_def by (simp only: relevant_iff)

lemma deleted_not_relevant:
  "list_all (\<lambda>d. kind d = KindD) diffs \<Longrightarrow> extractRelevantChanges diffs = []"
  by (induction diffs) (simp_all add: extractRelevantChanges_def)

lemma scalar_not_relevant:
  "isScalar v \<Longrightarrow> rhs d = Some v \<Longrightarrow> d \<notin> set (extractRelevantChanges diffs)"
  by (cases v) (auto simp: extractRelevantChanges_def stringValuesOf_def isScalar_def)

subsection \<open>What the phases of the module leave alone\<close>

lemma updateEntry_frame:
  "writes (snd (updateEntry e u t w)) = writes w"
  "providerCalls (snd (updateEntry e u t w)) = providerCalls w"
  "files (snd (updateEntry e u t w)) = files w"
  by (simp_all add: updateEntry_def logMessage_def split: option.splits)

lemma changesToTranslate_subset:
  "changesToTranslate e fileContent changes = Inr kept \<Longrightarrow> set kept \<subseteq> set changes"
proof (induction changes arbitrary: kept)
  case Nil
  then show ?case by simp
next
  case (Cons c cs)
  then show ?case
    by (auto split: option.splits sum.splits if_splits)
qed

text \<open>
  The candidates for one file are the changes whose path reads as \<^verbatim>\<open>undefined\<close>,
  \<^verbatim>\<open>null\<close> or the empty string in that file.
\<close>

lemma changesToTranslate_missing:
  "changesToTranslate e fileContent changes = Inr kept \<Longrightarrow> c \<in> set kept \<Longrightarrow>
     \<exists>p. path c = Some p \<and> isMissing (reducePath e fileContent p)"
proof (induction changes arbitrary: kept)
  case Nil
  then show ?case by simp
next
  case (Cons d ds)
  then show ?case
    by (auto split: option.splits sum.splits if_splits)
qed

text \<open>
  \<^verbatim>\<open>translateChanges\<close> reads files and calls the provider; the only part of the
  state it changes is the trace of the provider calls, and every value it sends is the
  \<^verbatim>\<open>rhs\<close> of one of the changes it was given.
\<close>

lemma translateChanges_calls:
  "\<exists>calls. snd (translateChanges e src changes targetFiles tbl w)
            = w\<lparr>providerCalls := providerCalls w @ calls\<rparr> \<and>
           list_all (\<lambda>call. set (fst call) \<subseteq> rhs ` set changes) calls"
proof (induction targetFiles arbitrary: tbl w)
  case Nil
  have "w = w\<lparr>providerCalls := providerCalls w @ []\<rparr>" by simp
  then show ?case by (intro exI [of _ "[]"]) simp
next
  case (Cons f fs)
  let ?stop = "snd (translateChanges e src changes (f # fs) tbl w)
                 = w\<lparr>providerCalls := providerCalls w @ []\<rparr>"
  have stop: "?stop \<Longrightarrow> ?case"
    by (intro exI [of _ "[]"]) simp
  show ?case
  proof (cases "readWorkspaceFileAsync w f")
    case (Inl err)
    then have ?stop by simp
    then show ?thesis by (rule stop)
  next
    case (Inr content)
    note rd = this
    show ?thesis
    proof (cases "JSON_parse e content")
      case None
      with rd have ?stop by simp
      then show ?thesis by (rule stop)
    next
      case (Some fileContent)
      note ps = this
      show ?thesis
      proof (cases "changesToTranslate e fileContent changes")
        case (Inl err)
        with rd ps have ?stop by simp
        then show ?thesis by (rule stop)
      next
        case (Inr toTranslate)
        note ct = this
        show ?thesis
        proof (cases "toTranslate = []")
          case True
          with rd ps ct have "snd (translateChanges e src changes (f # fs) tbl w)
               = snd (translateChanges e src changes fs tbl w)" by simp
          with Cons.IH [of tbl w] show ?thesis by simp
        next
          case False
          define call where "call = (map rhs toTranslate, src, extractLocaleFromFileUri e f)"
          define w' where "w' = w\<lparr>providerCalls := providerCalls w @ [call]\<rparr>"
          have call: "set (fst call) \<subseteq> rhs ` set changes"
            using changesToTranslate_subset [OF ct] by (auto simp: call_def)
          show ?thesis
          proof (cases "translateKeysAsync e (map rhs toTranslate) src (extractLocaleFromFileUri e f)")
            case (Inl err)
            with rd ps ct False
            have "snd (translateChanges e src changes (f # fs) tbl w)
                    = w\<lparr>providerCalls := providerCalls w @ [call]\<rparr>"
              by (simp add: call_def Let_def)
            moreover have "list_all (\<lambda>call. set (fst call) \<subseteq> rhs ` set changes) [call]"
              using call by simp
            ultimately show ?thesis by blast
          next
            case (Inr tv)
            with rd ps ct False have "snd (translateChanges e src changes (f # fs) tbl w)
               = snd (translateChanges e src changes fs
                        (tbl(extractLocaleFromFileUri e f \<mapsto> withTranslatedValues toTranslate tv)) w')"
              by (simp add: call_def w'_def Let_def)
            moreover obtain calls where "snd (translateChanges e src changes fs
                        (tbl(extractLocaleFromFileUri e f \<mapsto> withTranslatedValues toTranslate tv)) w')
                  = w'\<lparr>providerCalls := providerCalls w' @ calls\<rparr>"
               and "list_all (\<lambda>call. set (fst call) \<subseteq> rhs ` set changes) calls"
              using Cons.IH by blast
            ultimately have "snd (translateChanges e src changes (f # fs) tbl w)
                 = w\<lparr>providerCalls := providerCalls w @ ([call] @ calls)\<rparr>"
              and "list_all (\<lambda>call. set (fst call) \<subseteq> rhs ` set changes) ([call] @ calls)"
              using call by (simp_all add: w'_def)
            then show ?thesis by blast
          qed
        qed
      qed
    qed
  qed
qed

text \<open>
  A call of the provider that fails ends \<^verbatim>\<open>translateChanges\<close> with that error: the
  loop has no \<^verbatim>\<open>try\<close> around \<^verbatim>\<open>translateKeysAsync\<close>.
\<close>

lemma translateChanges_failed_call:
  "(valuesToTranslate, sourceLanguage, targetLanguage)
     \<in> set (drop (length (providerCalls w))
                (providerCalls (snd (translateChanges e src changes targetFiles tbl w)))) \<Longrightarrow>
   translateKeysAsync e valuesToTranslate sourceLanguage targetLanguage = Inl err \<Longrightarrow>
   fst (translateChanges e src changes targetFiles tbl w) = Inl err"
proof (induction targetFiles arbitrary: tbl w)
  case Nil
  then show ?case by simp
next
  case (Cons f fs)
  show ?case
  proof (cases "readWorkspaceFileAsync w f")
    case (Inl err')
    with Cons.prems show ?thesis by simp
  next
    case (Inr content)
    note rd = this
    show ?thesis
    proof (cases "JSON_parse e content")
      case None
      with rd Cons.prems show ?thesis by simp
    next
      case (Some fileContent)
      note ps = this
      show ?thesis
      proof (cases "changesToTranslate e fileContent changes")
        case (Inl err')
        with rd ps Cons.prems show ?thesis by simp
      next
        case (Inr toTranslate)
        note ct = this
        show ?thesis
        proof (cases "toTranslate = []")
          case True
          with rd ps ct have eq: "translateChanges e src changes (f # fs) tbl w
               = translateChanges e src changes fs tbl w" by simp
          from Cons.IH [of w tbl] Cons.prems show ?thesis by (simp only: eq)
        next
          case False
          define lang where "lang = extractLocaleFromFileUri e f"
          define w' where "w' = w\<lparr>providerCalls := providerCalls w @ [(map rhs toTranslate, src, lang)]\<rparr>"
          show ?thesis
          proof (cases "translateKeysAsync e (map rhs toTranslate) src lang")
            case (Inl err')
            with rd ps ct False
            have run: "translateChanges e src changes (f # fs) tbl w = (Inl err', w')"
              by (simp add: w'_def lang_def Let_def)
            with Cons.prems(1) have "(valuesToTranslate, sourceLanguage, targetLanguage)
                  = (map rhs toTranslate, src, lang)"
              by (simp add: w'_def)
            with Cons.prems(2) Inl have "err' = err" by simp
            with run show ?thesis by simp
          next
            case (Inr tv)
            define tbl' where "tbl' = tbl(lang \<mapsto> withTranslatedValues toTranslate tv)"
            from Inr rd ps ct False have eq: "translateChanges e src changes (f # fs) tbl w
               = translateChanges e src changes fs tbl' w'"
              by (simp add: w'_def lang_def tbl'_def Let_def)
            obtain calls where calls: "snd (translateChanges e src changes fs tbl' w')
                  = w'\<lparr>providerCalls := providerCalls w' @ calls\<rparr>"
              using translateChanges_calls by blast
            have "(valuesToTranslate, sourceLanguage, targetLanguage)
                    \<in> set ((map rhs toTranslate, src, lang) # calls)"
              using Cons.prems(1) unfolding eq calls by (simp add: w'_def)
            moreover have "(valuesToTranslate, sourceLanguage, targetLanguage)
                             \<noteq> (map rhs toTranslate, src, lang)"
              using Cons.prems(2) Inr by auto
            ultimately have "(valuesToTranslate, sourceLanguage, targetLanguage)
                \<in> set (drop (length (providerCalls w'))
                       (providerCalls (snd (translateChanges e src changes fs tbl' w'))))"
              unfolding calls by (auto simp: w'_def)
            from Cons.IH [OF this Cons.prems(2)] show ?thesis by (simp only: eq)
          qed
        qed
      qed
    qed
  qed
qed


lemma applyTranslationsToFiles_calls:
  "providerCalls (snd (applyTranslationsToFiles e targetFiles tbl w)) = providerCalls w"
proof (induction targetFiles arbitrary: w)
  case Nil
  then show ?case by simp
next
  case (Cons f fs)
  show ?case
  proof (cases "hasFileLock w f")
    case True
    then show ?thesis by (simp add: Cons.IH)
  next
    case False
    note unlocked = this
    show ?thesis
    proof (cases "readWorkspaceFileAsync w f")
      case (Inl err)
      with unlocked show ?thesis by (simp add: Cons.IH) (simp add: logMessage_def)
    next
      case (Inr raw)
      note rd = this
      show ?thesis
      proof (cases "JSON_parse e raw")
        case None
        with unlocked rd show ?thesis by (simp add: Cons.IH) (simp add: logMessage_def)
      next
        case (Some fileContent)
        define newText where "newText =
          (let stringified = JSON_stringify e (applyDiffsToJSON e fileContent (tbl (extractLocaleFromFileUri e f)))
                               (numberOfSpacesForIndentation e)
           in if endsWithNewLine raw \<and> \<not> endsWithNewLine stringified
              then stringified @ [CHR 0x0A] else stringified)"
        define w3 where "w3 = setTimeoutDeleteLock f (writeToWorkspaceFileAsync f newText (addLock f w))"
        have w3: "providerCalls w3 = providerCalls w"
          by (simp add: w3_def setTimeoutDeleteLock_def writeToWorkspaceFileAsync_def addLock_def)
        have step: "applyTranslationsToFiles e (f # fs) tbl w =
            (case updateEntry e f newText w3 of
               (Inl err, w4) \<Rightarrow> (Inl err, w4)
             | (Inr u, w4) \<Rightarrow> applyTranslationsToFiles e fs tbl w4)"
          using unlocked rd Some by (simp add: Let_def newText_def w3_def)
        show ?thesis
        proof (cases "updateEntry e f newText w3")
          case (Pair r w4)
          then have "providerCalls w4 = providerCalls w"
            using updateEntry_frame(2) [of e f newText w3] w3 by simp
          with Pair step show ?thesis
            by (cases r) (simp_all add: Cons.IH)
        qed
      qed
    qed
  qed
qed

text \<open>
  The provider is called in the translation phase only: the trace after the
  \<^verbatim>\<open>try\<close> block is the trace after \<^verbatim>\<open>translateChanges\<close>.
\<close>

lemma tryTranslation_providerCalls:
  "providerCalls (snd (tryTranslation e ctx content changes w)) =
   providerCalls (snd (translateChanges e (extractLocaleFromFileUri e (inputPath ctx)) changes
                         (findRelatedFiles e (updateState Running w) (inputPath ctx)) Map.empty
                         (updateState Running w)))"
proof -
  define w2 where "w2 = updateState Running w"
  define otherFiles where "otherFiles = findRelatedFiles e w2 (inputPath ctx)"
  define tc where "tc = translateChanges e (extractLocaleFromFileUri e (inputPath ctx))
              changes otherFiles Map.empty w2"
  have body: "tryTranslation e ctx content changes w =
     (case tc of
        (Inl err, w3) \<Rightarrow> (Inl err, w3)
      | (Inr translationsByLanguage, w3) \<Rightarrow>
          (case applyTranslationsToFiles e otherFiles translationsByLanguage w3 of
             (Inl err, w4) \<Rightarrow> (Inl err, w4)
           | (Inr u, w4) \<Rightarrow> updateEntry e (inputPath ctx) content w4))"
    unfolding tryTranslation_def Let_def tc_def otherFiles_def w2_def by (rule refl)
  have "providerCalls (snd (tryTranslation e ctx content changes w)) = providerCalls (snd tc)"
  proof (cases tc)
    case (Pair r w3)
    note tc = this
    show ?thesis
    proof (cases r)
      case (Inl err)
      with tc show ?thesis by (simp add: body)
    next
      case (Inr tbl)
      show ?thesis
      proof (cases "applyTranslationsToFiles e otherFiles tbl w3")
        case (Pair r' w4)
        then have "providerCalls w4 = providerCalls w3"
          using applyTranslationsToFiles_calls [of e otherFiles tbl w3] by simp
        with Pair Inr tc show ?thesis
          by (cases r') (simp_all add: body updateEntry_frame)
      qed
    qed
  qed
  then show ?thesis by (simp add: tc_def otherFiles_def w2_def)
qed

lemma tryTranslation_calls:
  "\<exists>calls. providerCalls (snd (tryTranslation e ctx content changes w)) = providerCalls w @ calls \<and>
           list_all (\<lambda>call. set (fst call) \<subseteq> rhs ` set changes) calls"
proof -
  define w2 where "w2 = updateState Running w"
  obtain calls where calls:
    "snd (translateChanges e (extractLocaleFromFileUri e (inputPath ctx)) changes
            (findRelatedFiles e w2 (inputPath ctx)) Map.empty w2)
       = w2\<lparr>providerCalls := providerCalls w2 @ calls\<rparr>"
    "list_all (\<lambda>call. set (fst call) \<subseteq> rhs ` set changes) calls"
    using translateChanges_calls by blast
  then have "providerCalls (snd (tryTranslation e ctx content changes w)) = providerCalls w @ calls"
    by (simp add: tryTranslation_providerCalls w2_def [symmetric]) (simp add: w2_def updateState_def)
  with calls(2) show ?thesis by blast
qed

text \<open>
  The calls that one run of \<^verbatim>\<open>doExecuteAsync\<close> adds to the trace carry values of
  relevant changes only.
\<close>

lemma doExecuteAsync_calls:
  "\<exists>calls. providerCalls (snd (doExecuteAsync e ctx w)) = providerCalls w @ calls \<and>
           list_all (\<lambda>call. list_all (\<lambda>v. \<exists>d. relevantChange d \<and> rhs d = v) (fst call)) calls"
proof -
  have unchanged: "providerCalls (snd (doExecuteAsync e ctx w)) = providerCalls w @ [] \<Longrightarrow> ?thesis"
    by (intro exI [of _ "[]"]) simp
  show ?thesis
  proof (cases "jsonContent ctx")
    case None
    then show ?thesis by (intro unchanged) (simp add: doExecuteAsync_def)
  next
    case (Some content)
    note content = this
    show ?thesis
    proof (cases "getTranslationFileDiffs e w (inputPath ctx) content")
      case (Inl err)
      with content show ?thesis by (intro unchanged) (simp add: doExecuteAsync_def)
    next
      case (Inr diffs)
      note diffs = this
      show ?thesis
      proof (cases "content = '''' \<or> diffs = [] \<or> extractRelevantChanges diffs = []")
        case True
        with content diffs show ?thesis
          by (intro unchanged)
             (auto simp: doExecuteAsync_def Let_def logMessage_def addOrUpdateFile_def)
      next
        case False
        define w1 where "w1 = addOrUpdateFile (inputPath ctx) w"
        obtain calls where calls:
          "providerCalls (snd (tryTranslation e ctx content (extractRelevantChanges diffs) w1))
             = providerCalls w1 @ calls"
          "list_all (\<lambda>call. set (fst call) \<subseteq> rhs ` set (extractRelevantChanges diffs)) calls"
          using tryTranslation_calls by blast
        have "providerCalls (snd (doExecuteAsync e ctx w))
                = providerCalls (snd (tryTranslation e ctx content (extractRelevantChanges diffs) w1))"
          using content diffs False
          by (simp add: doExecuteAsync_def Let_def w1_def setIdle_def logMessage_def
                split: prod.splits sum.splits)
        with calls(1) have "providerCalls (snd (doExecuteAsync e ctx w)) = providerCalls w @ calls"
          by (simp add: w1_def addOrUpdateFile_def)
        moreover have "list_all (\<lambda>call. list_all (\<lambda>v. \<exists>d. relevantChange d \<and> rhs d = v) (fst call)) calls"
          using calls(2) unfolding list_all_iff extractRelevantChanges_filter by auto
        ultimately show ?thesis by blast
      qed
    qed
  qed
qed

lemma no_relevant_changes:
  assumes "jsonContent ctx = Some content"
    and "getTranslationFileDiffs e w (inputPath ctx) content = Inr diffs"
    and "extractRelevantChanges diffs = []"
  shows "fst (doExecuteAsync e ctx w) = Inr ()"
    and "providerCalls (snd (doExecuteAsync e ctx w)) = providerCalls w"
    and "files (snd (doExecuteAsync e ctx w)) = files w"
    and "writes (snd (doExecuteAsync e ctx w)) = writes w"
  using assms
  by (simp_all add: doExecuteAsync_def Let_def logMessage_def addOrUpdateFile_def)
section \<open>The claims\<close>

subsection \<open>C1: an added key\<close>




subsection \<open>C2: a sibling value that is already there\<close>

text \<open>
  Claim C2 says that only paths whose value in the sibling is missing, \<^verbatim>\<open>null\<close> or
  empty become translation candidates, and that a sibling path with a non-empty value is
  never overwritten. The candidates are chosen per file, as the first half of the claim
  says (\<open>changesToTranslate_missing\<close>), but the translated entries are stored per
  language (\<^verbatim>\<open>translationsByLanguage[targetLanguage]\<close>) and applied to every file
  of that language. The run below has two French files with the base name of the
  edited file: \<^verbatim>\<open>/app/locales/fr/common.json\<close> with an empty \<^verbatim>\<open>a.b\<close> and
  \<^verbatim>\<open>/lib/locales/fr/common.json\<close> with \<^verbatim>\<open>a.b = "ya"\<close>. One translation is requested,
  for the first file, and the second file's \<^verbatim>\<open>"ya"\<close> is replaced by it.
\<close>

theorem same_locale_sibling_overwritten:
  \<open>files sameLocaleWorld ''/lib/locales/fr/common.json'' = Some ''{"a":{"b":"ya"}}'' \<and>
   fst (doExecuteAsync exampleEnv editedContext sameLocaleWorld) = Inr () \<and>
   providerCalls (snd (doExecuteAsync exampleEnv editedContext sameLocaleWorld))
     = [([Some (JStr ''hello'')], ''en'', ''fr'')] \<and>
   writes (snd (doExecuteAsync exampleEnv editedContext sameLocaleWorld))
     = [(''/app/locales/fr/common.json'', ''{"a":{"b":"bonjour"}}''),
        (''/lib/locales/fr/common.json'', ''{"a":{"b":"bonjour"}}'')] \<and>
   files (snd (doExecuteAsync exampleEnv editedContext sameLocaleWorld)) ''/lib/locales/fr/common.json''
     = Some ''{"a":{"b":"bonjour"}}''\<close>
  by code_simp

subsection \<open>C3: the relevant-change filter\<close>

text \<open>
  Claim C3: the relevant-change filter keeps exactly the entries of kind Added or Edited
  whose new value is non-empty (an object must contain at least one non-empty string
  leaf), and an event whose diff consists of Deleted entries only makes no provider call
  and modifies no file. The second half holds as it is written. The first half does not:
  a number is a non-empty value and no object, so the words keep an Added entry whose new
  value is \<^verbatim>\<open>3\<close>, and \<^verbatim>\<open>extractRelevantChanges\<close> drops it, because it asks for a
  non-empty string in the value. Amended claim: the
  filter keeps exactly the entries of kind Added or Edited whose new value is a
  non-empty string or an object or array that holds a non-empty string at some depth;
  each of them is an entry that the words of the spec keep; and an event whose diff
  consists of Deleted entries only makes no provider call and modifies no file.
\<close>

theorem relevant_filter_and_deletions:
  "extractRelevantChanges diffs = filter relevantChange diffs \<and>
   (relevantChange d \<longrightarrow> relevantPerSpec d) \<and>
   (jsonContent ctx = Some content \<and>
    getTranslationFileDiffs e w (inputPath ctx) content = Inr deletions \<and>
    list_all (\<lambda>d. kind d = KindD) deletions \<longrightarrow>
      fst (doExecuteAsync e ctx w) = Inr () \<and>
      providerCalls (snd (doExecuteAsync e ctx w)) = providerCalls w \<and>
      files (snd (doExecuteAsync e ctx w)) = files w \<and>
      writes (snd (doExecuteAsync e ctx w)) = writes w)"
proof -
  have "relevantPerSpec d" if "relevantChange d"
  proof (cases "rhs d")
    case None
    with that show ?thesis by (simp add: relevantChange_def holdsNonEmptyString_def)
  next
    case (Some v)
    with that show ?thesis
      by (cases v) (simp_all add: relevantChange_def holdsNonEmptyString_def relevantPerSpec_def)
  qed
  then show ?thesis
    using no_relevant_changes [of ctx content e w deletions] deleted_not_relevant [of deletions]
    by (simp add: extractRelevantChanges_filter)
qed

theorem relevant_filter_and_deletions_witness:
  \<open>relevantChange \<lparr>kind = KindN, path = Some [Name ''common'', Name ''cancel''], lhs = None,
                    rhs = Some (JStr ''Cancel'')\<rparr> \<and>
   relevantPerSpec \<lparr>kind = KindN, path = Some [Name ''common'', Name ''cancel''], lhs = None,
                     rhs = Some (JStr ''Cancel'')\<rparr> \<and>
   getTranslationFileDiffs exampleEnv deletionWorld ''/locales/en/common.json'' ''{"common":{"save":"Save"}}''
     = Inr [\<lparr>kind = KindD, path = Some [Name ''common'', Name ''cancel''],
              lhs = Some (JStr ''Cancel''), rhs = None\<rparr>] \<and>
   fst (doExecuteAsync exampleEnv deletionContext deletionWorld) = Inr () \<and>
   providerCalls (snd (doExecuteAsync exampleEnv deletionContext deletionWorld)) = [] \<and>
   files (snd (doExecuteAsync exampleEnv deletionContext deletionWorld)) = files deletionWorld \<and>
   writes (snd (doExecuteAsync exampleEnv deletionContext deletionWorld)) = []\<close>
proof -
  let ?c = "\<lparr>kind = KindN, path = Some [Name ''common'', Name ''cancel''], lhs = None,
              rhs = Some (JStr ''Cancel'')\<rparr>"
  let ?d = "\<lparr>kind = KindD, path = Some [Name ''common'', Name ''cancel''],
              lhs = Some (JStr ''Cancel''), rhs = None\<rparr>"
  have h0: "relevantChange ?c"
    by code_simp
  have h1: \<open>jsonContent deletionContext = Some ''{"common":{"save":"Save"}}''\<close>
    by (simp add: deletionContext_def)
  have h2: \<open>getTranslationFileDiffs exampleEnv deletionWorld (inputPath deletionContext)
              ''{"common":{"save":"Save"}}'' = Inr [?d]\<close>
    by code_simp
  have h3: "list_all (\<lambda>d. kind d = KindD) [?d]"
    by simp
  have start: "inputPath deletionContext = ''/locales/en/common.json''"
      "providerCalls deletionWorld = []" "writes deletionWorld = []"
    by code_simp+
  from relevant_filter_and_deletions [of "[?d]" ?c deletionContext _ exampleEnv deletionWorld "[?d]"]
    h0 h1 h2 h3
  show ?thesis
    by (simp only: start simp_thms)
qed

text \<open>
  The entry that the words of claim C3 keep and the filter drops: \<^verbatim>\<open>common.retries\<close>
  is added with the value \<^verbatim>\<open>3\<close>.
\<close>

theorem relevant_filter_counterexample:
  "relevantPerSpec \<lparr>kind = KindN, path = Some [Name ''common'', Name ''retries''], lhs = None,
                     rhs = Some (JNum 3)\<rparr> \<and>
   extractRelevantChanges [\<lparr>kind = KindN, path = Some [Name ''common'', Name ''retries''], lhs = None,
                             rhs = Some (JNum 3)\<rparr>] = [] \<and>
   filter relevantPerSpec [\<lparr>kind = KindN, path = Some [Name ''common'', Name ''retries''], lhs = None,
                             rhs = Some (JNum 3)\<rparr>]
     = [\<lparr>kind = KindN, path = Some [Name ''common'', Name ''retries''], lhs = None,
          rhs = Some (JNum 3)\<rparr>]"
  by code_simp

subsection \<open>C4: the chain of modules\<close>

text \<open>
  Claim C4 says that a handler with a successor runs its own logic first and forwards the
  context to the successor only if the handler signals continuation, and that a handler
  signalling non-continuation halts the chain. \<^verbatim>\<open>BaseActionModule.execute\<close> has no
  such signal: it awaits \<^verbatim>\<open>doExecute\<close>, drops what it resolved to and calls the
  successor whenever there is one. Amended claim: executing a handler with a successor
  runs the handler's own logic first and then, whatever that logic resolved to, executes
  the successor with the same context on the state the logic left; only an error thrown
  by the logic keeps the successor from running.
\<close>

theorem execute_forwards_unconditionally:
  "(doExecute h ctx s = (Inr r, s') \<and> nextModule h = Some m \<longrightarrow>
      execute h ctx s = execute m ctx s') \<and>
   (doExecute h ctx s = (Inl err, s') \<longrightarrow> execute h ctx s = (Inl err, s'))"
  by (cases h) auto

theorem execute_forwards_unconditionally_witness:
  "doExecute firstModule () [] = (Inr False, [''first'']) \<and>
   nextModule firstModule = Some secondModule \<and>
   execute firstModule () [] = execute secondModule () [''first'']"
proof -
  have h: "doExecute firstModule () [] = (Inr False, [''first''])"
      "nextModule firstModule = Some secondModule"
    by (simp_all add: firstModule_def setNext_def)
  with execute_forwards_unconditionally [of firstModule "()" "[]" False "[''first'']" secondModule]
  show ?thesis by simp
qed

theorem execute_ignores_signal_counterexample:
  "fst (doExecute firstModule () []) = Inr False \<and>
   nextModule firstModule = Some secondModule \<and>
   execute firstModule () [] = (Inr (), [''first'', ''second''])"
  by (simp add: firstModule_def secondModule_def setNext_def)

subsection \<open>C5: the watcher and the locks\<close>

text \<open>
  Claim C5 says that the watch dispatcher checks the lock store's \<^verbatim>\<open>has(path)\<close> before
  it invokes a handler chain, and that an event for a locked path never invokes the
  chain. The callback of \<^verbatim>\<open>createFileWatchersForFilesMatchingGlobAsync\<close> does not read
  the lock store; its gate is the list of disable flags of its caller. Amended claim: the
  dispatcher drops a change event exactly when one of the disable flags returns true, and
  otherwise hands the event to the handler of the file; a lock for the path keeps the
  event from the chain only through such a flag.
\<close>

theorem onDidChange_gated_by_flags:
  "(list_ex (\<lambda>flag. flag w) disableFlags \<longrightarrow>
      onDidChange disableFlags fileChangeHandler fileUri w = (Inr (), w)) \<and>
   (list_all (\<lambda>flag. \<not> flag w) disableFlags \<longrightarrow>
      onDidChange disableFlags (Some handleFileChangeAsync) fileUri w = handleFileChangeAsync fileUri w)"
  by (auto simp: onDidChange_def list_ex_iff list_all_iff)

theorem onDidChange_gated_by_flags_witness:
  "hasFileLock lockedWorld ''/locales/en/common.json'' \<and>
   onDidChange [\<lambda>w. hasFileLock w ''/locales/en/common.json''] (Some exampleHandler)
       ''/locales/en/common.json'' lockedWorld = (Inr (), lockedWorld) \<and>
   onDidChange [] (Some exampleHandler) ''/locales/en/common.json'' lockedWorld
     = exampleHandler ''/locales/en/common.json'' lockedWorld"
proof -
  have locked: "hasFileLock lockedWorld ''/locales/en/common.json''"
    by (simp add: lockedWorld_def hasFileLock_def)
  from onDidChange_gated_by_flags [of lockedWorld "[\<lambda>w. hasFileLock w ''/locales/en/common.json'']"
        "Some exampleHandler" "''/locales/en/common.json''"]
    onDidChange_gated_by_flags [of lockedWorld "[]" None "''/locales/en/common.json''" exampleHandler]
    locked
  show ?thesis by simp
qed

theorem locked_path_dispatched_counterexample:
  \<open>hasFileLock lockedWorld ''/locales/en/common.json'' \<and>
   providerCalls (snd (onDidChange [] (Some exampleHandler) ''/locales/en/common.json'' lockedWorld))
     = [([Some (JStr ''Cancel'')], ''en'', ''fr'')] \<and>
   writes (snd (onDidChange [] (Some exampleHandler) ''/locales/en/common.json'' lockedWorld))
     = [(''/locales/fr/common.json'', ''{"common":{"save":"Enregistrer"}}'')]\<close>
  by code_simp

subsection \<open>C6: a sibling that does not parse\<close>

text \<open>
  Claim C6 says that a sibling whose content is not parsable JSON is logged and skipped
  and that the remaining siblings are processed. \<^verbatim>\<open>applyTranslationsToFiles\<close> does
  that, but \<^verbatim>\<open>translateChanges\<close> parses every sibling before, outside any
  \<^verbatim>\<open>try\<close>, so the \<^verbatim>\<open>SyntaxError\<close> ends the whole event in the \<^verbatim>\<open>catch\<close> of
  \<^verbatim>\<open>doExecuteAsync\<close>. In the run below the German file is cut off and the French file
  has an empty \<^verbatim>\<open>a.b\<close>: no translation is requested for the French file and nothing is
  written.
\<close>

theorem malformed_sibling_aborts_event:
  \<open>JSON_parse exampleEnv ''{"a":'' = None \<and>
   fst (doExecuteAsync exampleEnv editedContext malformedSiblingWorld) = Inr () \<and>
   logged (snd (doExecuteAsync exampleEnv editedContext malformedSiblingWorld))
     = [(ERROR, ErrorTranslatingChanges SyntaxError)] \<and>
   providerCalls (snd (doExecuteAsync exampleEnv editedContext malformedSiblingWorld)) = [] \<and>
   writes (snd (doExecuteAsync exampleEnv editedContext malformedSiblingWorld)) = [] \<and>
   files (snd (doExecuteAsync exampleEnv editedContext malformedSiblingWorld)) ''/app/locales/fr/common.json''
     = Some ''{"a":{"b":""}}''\<close>
  by code_simp

subsection \<open>C7: a failing translation provider\<close>

text \<open>
  Claim C7: if the call of the translation provider fails, the rest of the event's
  translation and apply work is aborted: nothing is written to any sibling, the cache
  of the translation store (with the baseline of the originating file in it) is left
  as it was, and the status bar is set to idle all the same. The hypotheses say that
  the run made a call of the provider (it is among the calls the run added to the
  trace) and that this call fails.
\<close>

theorem provider_failure_aborts:
  assumes made: "(valuesToTranslate, sourceLanguage, targetLanguage)
                   \<in> set (drop (length (providerCalls w)) (providerCalls (snd (doExecuteAsync e ctx w))))"
    and failed: "translateKeysAsync e valuesToTranslate sourceLanguage targetLanguage = Inl err"
  shows "fst (doExecuteAsync e ctx w) = Inr () \<and>
         writes (snd (doExecuteAsync e ctx w)) = writes w \<and>
         files (snd (doExecuteAsync e ctx w)) = files w \<and>
         translationFileContents (snd (doExecuteAsync e ctx w)) = translationFileContents w \<and>
         statusBar (snd (doExecuteAsync e ctx w)) = Idle \<and>
         last (logged (snd (doExecuteAsync e ctx w))) = (ERROR, ErrorTranslatingChanges err)"
proof -
  have called: "providerCalls (snd (doExecuteAsync e ctx w)) \<noteq> providerCalls w"
    using made by auto
  obtain content where content: "jsonContent ctx = Some content"
    using called by (cases "jsonContent ctx") (auto simp: doExecuteAsync_def)
  obtain diffs where diffs: "getTranslationFileDiffs e w (inputPath ctx) content = Inr diffs"
    using called content
    by (cases "getTranslationFileDiffs e w (inputPath ctx) content")
       (auto simp: doExecuteAsync_def split: if_splits)
  have main: "content \<noteq> ''''" "diffs \<noteq> []" "extractRelevantChanges diffs \<noteq> []"
    using called content diffs
    by (auto simp: doExecuteAsync_def Let_def logMessage_def addOrUpdateFile_def split: if_splits)
  define w1 where "w1 = addOrUpdateFile (inputPath ctx) w"
  define w2 where "w2 = updateState Running w1"
  define tc where "tc = translateChanges e (extractLocaleFromFileUri e (inputPath ctx))
              (extractRelevantChanges diffs) (findRelatedFiles e w2 (inputPath ctx)) Map.empty w2"
  have w2: "providerCalls w2 = providerCalls w"
    by (simp add: w2_def w1_def updateState_def addOrUpdateFile_def)
  have "providerCalls (snd (doExecuteAsync e ctx w))
          = providerCalls (snd (tryTranslation e ctx content (extractRelevantChanges diffs) w1))"
    using content diffs main
    by (simp add: doExecuteAsync_def Let_def w1_def setIdle_def logMessage_def
          split: prod.splits sum.splits)
  also have "\<dots> = providerCalls (snd tc)"
    by (simp add: tryTranslation_providerCalls tc_def w2_def)
  finally have "(valuesToTranslate, sourceLanguage, targetLanguage)
                  \<in> set (drop (length (providerCalls w2)) (providerCalls (snd tc)))"
    using made w2 by simp
  then have "fst tc = Inl err"
    unfolding tc_def using failed by (rule translateChanges_failed_call)
  moreover obtain calls where "snd tc = w2\<lparr>providerCalls := providerCalls w2 @ calls\<rparr>"
    unfolding tc_def using translateChanges_calls by blast
  ultimately have tc: "tc = (Inl err, w2\<lparr>providerCalls := providerCalls w2 @ calls\<rparr>)"
    by (metis prod.collapse)
  have "tryTranslation e ctx content (extractRelevantChanges diffs) w1
          = (Inl err, w2\<lparr>providerCalls := providerCalls w2 @ calls\<rparr>)"
    using tc by (simp add: tryTranslation_def Let_def w2_def [symmetric] tc_def [symmetric])
  then have "doExecuteAsync e ctx w =
      (Inr (), setIdle (logMessage ERROR (ErrorTranslatingChanges err)
                 (w2\<lparr>providerCalls := providerCalls w2 @ calls\<rparr>)))"
    using content diffs main
    by (simp add: doExecuteAsync_def Let_def w1_def [symmetric])
  then show ?thesis
    by (simp add: setIdle_def logMessage_def w2_def w1_def updateState_def addOrUpdateFile_def)
qed

theorem provider_failure_aborts_witness:
  \<open>providerCalls (snd (doExecuteAsync exampleEnv editedContext providerFailureWorld))
     = [([Some (JStr ''hello'')], ''en'', ''fr''), ([Some (JStr ''hello'')], ''en'', ''de'')] \<and>
   translateKeysAsync exampleEnv [Some (JStr ''hello'')] ''en'' ''de''
     = Inl (ProviderFailure ''target language not supported'') \<and>
   fst (doExecuteAsync exampleEnv editedContext providerFailureWorld) = Inr () \<and>
   writes (snd (doExecuteAsync exampleEnv editedContext providerFailureWorld)) = [] \<and>
   files (snd (doExecuteAsync exampleEnv editedContext providerFailureWorld)) = files providerFailureWorld \<and>
   translationFileContents (snd (doExecuteAsync exampleEnv editedContext providerFailureWorld))
     = translationFileContents providerFailureWorld \<and>
   statusBar (snd (doExecuteAsync exampleEnv editedContext providerFailureWorld)) = Idle \<and>
   last (logged (snd (doExecuteAsync exampleEnv editedContext providerFailureWorld)))
     = (ERROR, ErrorTranslatingChanges (ProviderFailure ''target language not supported''))\<close>
proof -
  have calls: \<open>providerCalls (snd (doExecuteAsync exampleEnv editedContext providerFailureWorld))
     = [([Some (JStr ''hello'')], ''en'', ''fr''), ([Some (JStr ''hello'')], ''en'', ''de'')]\<close>
    by code_simp
  have start: "providerCalls providerFailureWorld = []" "writes providerFailureWorld = []"
    by code_simp+
  have made: "([Some (JStr ''hello'')], ''en'', ''de'')
          \<in> set (drop (length (providerCalls providerFailureWorld))
                     (providerCalls (snd (doExecuteAsync exampleEnv editedContext providerFailureWorld))))"
    by (simp add: calls start)
  have failed: "translateKeysAsync exampleEnv [Some (JStr ''hello'')] ''en'' ''de''
                  = Inl (ProviderFailure ''target language not supported'')"
    by code_simp
  from provider_failure_aborts [OF made failed] calls failed
  show ?thesis
    by (simp only: start simp_thms)
qed

subsection \<open>C8: the diffs of an untracked path\<close>

text \<open>
  Claim C8: for every path and every new raw content, when the path has no cached
  content the old content is taken to be the empty object, so the diffs are those of
  \<^verbatim>\<open>{}\<close> against the parsed new content (every top-level key appears as an Added
  entry). The first part is about \<^verbatim>\<open>getTranslationFileDiffs\<close>, for every
  \<^verbatim>\<open>diffJsonObjects\<close>; new content that does not parse raises the \<^verbatim>\<open>SyntaxError\<close>
  of \<^verbatim>\<open>JSON.parse\<close>. The part in brackets is about the diff engine, which is modelled
  from the spec.
\<close>

theorem untracked_path_diffs_from_empty_object:
  "(translationFileContents w fileUri = None \<longrightarrow>
      getTranslationFileDiffs e w fileUri newJsonContent =
        (case JSON_parse e newJsonContent of
           None \<Rightarrow> Inl SyntaxError
         | Some newJsonObject \<Rightarrow> Inr (diffJsonObjects e (JObj []) newJsonObject))) \<and>
   diffJsonObjectsModel (JObj []) (JObj kvs) =
     map (\<lambda>kv. \<lparr>kind = KindN, path = Some [Name (fst kv)], lhs = None, rhs = Some (snd kv)\<rparr>) kvs"
  by (simp add: getTranslationFileDiffs_def diffJsonObjectsModel_def split: option.splits)

theorem untracked_path_diffs_from_empty_object_witness:
  \<open>translationFileContents emptyWorld ''/locales/en/common.json'' = None \<and>
   getTranslationFileDiffs exampleEnv emptyWorld ''/locales/en/common.json'' ''{"common":{"save":"Save"}}''
     = Inr [\<lparr>kind = KindN, path = Some [Name ''common''], lhs = None,
              rhs = Some (JObj [(''save'', JStr ''Save'')])\<rparr>]\<close>
proof -
  have h: "translationFileContents emptyWorld ''/locales/en/common.json'' = None"
    by (simp add: emptyWorld_def)
  have p: \<open>JSON_parse exampleEnv ''{"common":{"save":"Save"}}''
             = Some (JObj [(''common'', JObj [(''save'', JStr ''Save'')])])\<close>
    by code_simp
  have d: "diffJsonObjects exampleEnv = diffJsonObjectsModel"
    by (simp add: exampleEnv_def)
  from untracked_path_diffs_from_empty_object
         [of emptyWorld "''/locales/en/common.json''" exampleEnv _
             "[(''common'', JObj [(''save'', JStr ''Save'')])]"] h
  show ?thesis
    by (simp add: p d)
qed

subsection \<open>C9: new values that are numbers, booleans or null\<close>

text \<open>
  Claim C9: an Added or Edited entry whose new value is a number, a boolean or
  \<^verbatim>\<open>null\<close> is never classified as relevant and so never triggers a provider call:
  \<^verbatim>\<open>getAllStringValues\<close> finds no string in such a value. The entry is not in the
  result of the filter, whatever its kind and the other entries are, and no call that a
  run of \<^verbatim>\<open>doExecuteAsync\<close> adds to the trace carries the value.
\<close>

theorem scalar_never_relevant:
  assumes "isScalar v" and "rhs d = Some v"
  shows "d \<notin> set (extractRelevantChanges diffs) \<and>
         list_all (\<lambda>call. Some v \<notin> set (fst call))
           (drop (length (providerCalls w)) (providerCalls (snd (doExecuteAsync e ctx w))))"
proof -
  have none: "\<not> (relevantChange d' \<and> rhs d' = Some v)" for d'
    using assms(1) by (cases v) (auto simp: relevantChange_def holdsNonEmptyString_def isScalar_def)
  obtain calls where calls: "providerCalls (snd (doExecuteAsync e ctx w)) = providerCalls w @ calls"
      "list_all (\<lambda>call. list_all (\<lambda>v. \<exists>d. relevantChange d \<and> rhs d = v) (fst call)) calls"
    using doExecuteAsync_calls by blast
  have "list_all (\<lambda>call. Some v \<notin> set (fst call)) calls"
    using calls(2) none unfolding list_all_iff by blast
  with calls(1) scalar_not_relevant [OF assms] show ?thesis
    by simp
qed

theorem scalar_never_relevant_witness:
  \<open>getTranslationFileDiffs exampleEnv addedKeyWorld ''/locales/en/common.json''
       ''{"common":{"save":"Save","cancel":"Cancel","retries":3}}''
     = Inr [\<lparr>kind = KindN, path = Some [Name ''common'', Name ''cancel''], lhs = None,
              rhs = Some (JStr ''Cancel'')\<rparr>,
            \<lparr>kind = KindN, path = Some [Name ''common'', Name ''retries''], lhs = None,
              rhs = Some (JNum 3)\<rparr>] \<and>
   \<lparr>kind = KindN, path = Some [Name ''common'', Name ''retries''], lhs = None, rhs = Some (JNum 3)\<rparr>
     \<notin> set (extractRelevantChanges
              [\<lparr>kind = KindN, path = Some [Name ''common'', Name ''cancel''], lhs = None,
                 rhs = Some (JStr ''Cancel'')\<rparr>,
               \<lparr>kind = KindN, path = Some [Name ''common'', Name ''retries''], lhs = None,
                 rhs = Some (JNum 3)\<rparr>]) \<and>
   providerCalls (snd (doExecuteAsync exampleEnv addedNumberContext addedKeyWorld))
     = [([Some (JStr ''Cancel'')], ''en'', ''fr'')] \<and>
   list_all (\<lambda>call. Some (JNum 3) \<notin> set (fst call))
     (providerCalls (snd (doExecuteAsync exampleEnv addedNumberContext addedKeyWorld)))\<close>
proof -
  let ?d = "\<lparr>kind = KindN, path = Some [Name ''common'', Name ''retries''], lhs = None,
              rhs = Some (JNum 3)\<rparr>"
  have h1: "isScalar (JNum 3)"
    by (simp add: isScalar_def)
  have h2: "rhs ?d = Some (JNum 3)"
    by simp
  have diffs: \<open>getTranslationFileDiffs exampleEnv addedKeyWorld ''/locales/en/common.json''
       ''{"common":{"save":"Save","cancel":"Cancel","retries":3}}''
     = Inr [\<lparr>kind = KindN, path = Some [Name ''common'', Name ''cancel''], lhs = None,
              rhs = Some (JStr ''Cancel'')\<rparr>, ?d]\<close>
    by code_simp
  have calls: \<open>providerCalls (snd (doExecuteAsync exampleEnv addedNumberContext addedKeyWorld))
     = [([Some (JStr ''Cancel'')], ''en'', ''fr'')]\<close>
    by code_simp
  have start: "length (providerCalls addedKeyWorld) = 0"
    by code_simp
  from scalar_never_relevant [OF h1 h2, of _ addedKeyWorld exampleEnv addedNumberContext] diffs calls
  show ?thesis
    by (simp only: start drop_0 simp_thms)
qed

subsection \<open>C10: an event without content\<close>

text \<open>
  Claim C10: if the change context carries no new raw JSON content (absent or empty),
  the translation module returns at once and nothing is changed: no diff is computed,
  no store is touched, no file is written and the status bar keeps its state.
\<close>

theorem no_content_no_effect:
  "jsonContent ctx = None \<or> jsonContent ctx = Some '''' \<Longrightarrow> doExecuteAsync e ctx w = (Inr (), w)"
  by (auto simp: doExecuteAsync_def)

theorem no_content_no_effect_witness:
  "doExecuteAsync exampleEnv \<lparr>inputPath = ''/locales/en/common.json'', jsonContent = None\<rparr> addedKeyWorld
     = (Inr (), addedKeyWorld) \<and>
   doExecuteAsync exampleEnv \<lparr>inputPath = ''/locales/en/common.json'', jsonContent = Some ''''\<rparr> addedKeyWorld
     = (Inr (), addedKeyWorld)"
  using no_content_no_effect [of "\<lparr>inputPath = ''/locales/en/common.json'', jsonContent = None\<rparr>"
          exampleEnv addedKeyWorld]
        no_content_no_effect [of "\<lparr>inputPath = ''/locales/en/common.json'', jsonContent = Some ''''\<rparr>"
          exampleEnv addedKeyWorld]
  by simp

end
